theory Spec2Isabelle
  imports Main
begin

section \<open>The Review-swap button (src/lib/components/Swap/SwapButton.tsx)\<close>

text \<open>
  The component \<open>SwapButton\<close> is a function of one prop (\<open>disabled\<close>) and of the values its
  hooks return at a render. It owns one piece of React state (\<open>activeTrade\<close>) and writes two
  external stores: the \<open>displayTxHashAtom\<close> slot and the transaction log. The embedding is a
  state-passing one: a record \<open>hooks\<close> holds what one render reads, a record \<open>world\<close> holds
  what the handlers write, and every handler is a function on \<open>world\<close>.
\<close>

subsection \<open>Values read from the SDK and the wallet\<close>

datatype TradeType = EXACT_INPUT | EXACT_OUTPUT

datatype TransactionType = APPROVAL | SWAP

text \<open>A currency of the SDK: the code reads \<open>isToken\<close> and the optional \<open>symbol\<close>.\<close>

record Currency =
  isToken :: bool
  symbol :: "string option"

text \<open>
  A currency amount of the SDK is a fraction of a currency. \<open>lessThan\<close> is the SDK's
  comparison of fractions by cross multiplication.
\<close>

record CurrencyAmount =
  currency :: Currency
  numerator :: int
  denominator :: int

definition lessThan_amount :: "CurrencyAmount \<Rightarrow> CurrencyAmount \<Rightarrow> bool" where
  "lessThan_amount a b \<longleftrightarrow> numerator a * denominator b < numerator b * denominator a"

datatype Trade =
  Trade (trade_tradeType: TradeType) (inputAmount: CurrencyAmount) (outputAmount: CurrencyAmount)

text \<open>The response of a submitted transaction; the component reads its \<open>hash\<close>.\<close>

record TransactionResponse =
  hash :: string

subsection \<open>Exceptions and promises\<close>

text \<open>
  A value thrown or a rejection reason: \<open>invariant\<close> of tiny-invariant throws
  \<open>Invariant_failed\<close>; the wallet or the submission rejects with a reason of its own.
\<close>

datatype error = Invariant_failed | Rejection string

text \<open>How a promise settles.\<close>

datatype 'a settled = Fulfilled 'a | Rejected error

subsection \<open>What the handlers write\<close>

text \<open>The record handed to \<open>addTransaction\<close> at lines 147-153.\<close>

record TransactionInfo =
  info_response :: TransactionResponse
  info_type :: TransactionType
  info_tradeType :: TradeType
  info_inputCurrencyAmount :: CurrencyAmount
  info_outputCurrencyAmount :: CurrencyAmount

text \<open>
  \<open>activeTrade\<close> is the component's \<open>useState\<close> cell (line 51, initially undefined),
  \<open>displayTxHash\<close> the value of \<open>displayTxHashAtom\<close>, \<open>transactions\<close> the transaction log
  and \<open>console\<close> what \<open>console.log\<close> has printed.
\<close>

record world =
  activeTrade :: "Trade option"
  displayTxHash :: "string option"
  transactions :: "TransactionInfo list"
  console :: "error list"

definition setActiveTrade :: "Trade option \<Rightarrow> world \<Rightarrow> world" where
  "setActiveTrade t w = w\<lparr>activeTrade := t\<rparr>"

text \<open>
  Modelled from the spec: the setter of \<open>displayTxHashAtom\<close> (lib/state/swap, not under
  src/). The spec's DisplayState is "a process-wide slot for the currently highlighted
  transaction hash, written on successful submission": the setter stores its argument.
\<close>

definition setDisplayTxHash :: "string \<Rightarrow> world \<Rightarrow> world" where
  "setDisplayTxHash h w = w\<lparr>displayTxHash := Some h\<rparr>"

text \<open>
  Modelled from the spec: \<open>addTransaction\<close>, returned by \<open>useAddTransaction\<close>
  (lib/hooks/transactions, not under src/). The spec's TransactionLog has one operation,
  \<open>record\<close>, to which a record is appended: \<open>transactions\<close> is the sequence of the
  records handed to it, in the order of the calls.
\<close>

definition addTransaction :: "TransactionInfo \<Rightarrow> world \<Rightarrow> world" where
  "addTransaction info w = w\<lparr>transactions := transactions w @ [info]\<rparr>"

definition console_log :: "error \<Rightarrow> world \<Rightarrow> world" where
  "console_log e w = w\<lparr>console := console w @ [e]\<rparr>"

subsection \<open>What one render reads\<close>

text \<open>
  The prop \<open>disabled\<close> and the values destructured from the hooks at lines 36-72 and 130.
  \<open>trade\<close> stands for \<open>trade.trade\<close>, which may be undefined. \<open>handleApproveOrPermit\<close> is
  an opaque callback of the approval hook, of type \<open>'h\<close>. \<open>swapCallback\<close> is absent or a
  function returning a promise; calling it gives the way that promise settles.
\<close>

record 'h hooks =
  disabled :: "bool option"
  chainId :: "nat option"
  tokenColorExtraction :: bool
  trade :: "Trade option"
  allowedSlippage :: "int \<times> int"
  inputCurrency :: "Currency option"
  inputCurrencyBalance :: "CurrencyAmount option"
  inputCurrencyAmount :: "CurrencyAmount option"
  outputCurrencyAmount :: "CurrencyAmount option"
  tradeType :: TradeType
  approvalCurrencyAmount :: "CurrencyAmount option"
  notApproved :: bool
  pendingApproval :: bool
  loadingSignature :: bool
  supportsPermit :: bool
  handleApproveOrPermit :: 'h
  approvalHash :: "string option"
  swapCallback :: "(unit \<Rightarrow> TransactionResponse settled) option"

text \<open>JavaScript truthiness of an optional boolean and of an optional number.\<close>

fun truthy_bool :: "bool option \<Rightarrow> bool" where
  "truthy_bool None = False"
| "truthy_bool (Some b) = b"

fun truthy_num :: "nat option \<Rightarrow> bool" where
  "truthy_num None = False"
| "truthy_num (Some n) = (n \<noteq> 0)"

subsection \<open>The button descriptor\<close>

text \<open>
  The JSX that \<open>actionProps\<close> builds: a \<open>Trans\<close> message is its list of literal texts and
  interpolated values, an \<open>EtherscanLink\<close> wraps a message and carries the explorer data
  type and the data (a hash, possibly undefined).
\<close>

datatype part = Text string | Value "string option"

datatype ExplorerDataType = TRANSACTION | TOKEN | ADDRESS | BLOCK

datatype node =
  Trans "part list"
| EtherscanLink ExplorerDataType "string option" node

datatype icon = Spinner

text \<open>The \<open>action\<close> of an \<open>ActionButton\<close>; \<open>icon\<close> is optional.\<close>

record 'h Action =
  message :: node
  icon :: "icon option"
  onClick :: 'h
  children :: node

text \<open>
  \<open>Partial<ActionButtonProps>\<close> as \<open>actionProps\<close> fills it: both keys are optional. The
  fields are prefixed, since \<open>disabled\<close> is also the component's prop.
\<close>

record 'h ActionButtonProps =
  btn_disabled :: "bool option"
  btn_action :: "'h Action option"

text \<open>
  The fourth disjunct of the test at lines 75-80:
  \<open>inputCurrencyAmount && inputCurrencyBalance && inputCurrencyBalance.lessThan(inputCurrencyAmount)\<close>.
  Amounts are objects, so each is truthy exactly when it is present.
\<close>

definition insufficientBalance :: "'h hooks \<Rightarrow> bool" where
  "insufficientBalance r =
    (case inputCurrencyAmount r of
       None \<Rightarrow> False
     | Some amount \<Rightarrow>
         (case inputCurrencyBalance r of
            None \<Rightarrow> False
          | Some balance \<Rightarrow> lessThan_amount balance amount))"

text \<open>
  Lines 74-127. \<open>blocked\<close> is the test of lines 75-80, whose branch returns
  \<open>{ disabled: true }\<close>; \<open>!chainId\<close> holds of an undefined chain and of chain 0. The
  second branch takes the
  currency from \<open>inputCurrency || approvalCurrencyAmount?.currency\<close> and throws through
  \<open>invariant(currency)\<close> when neither is there.
\<close>

definition blocked :: "'h hooks \<Rightarrow> bool" where
  "blocked r \<longleftrightarrow>
     truthy_bool (disabled r) \<or> \<not> truthy_num (chainId r) \<or> loadingSignature r \<or>
     insufficientBalance r"

definition actionProps :: "'h hooks \<Rightarrow> error + 'h ActionButtonProps" where
  "actionProps r =
    (if blocked r
     then Inr \<lparr>btn_disabled = Some True, btn_action = None\<rparr>
     else if notApproved r then
       (case (case inputCurrency r of
                Some c \<Rightarrow> Some c
              | None \<Rightarrow> map_option currency (approvalCurrencyAmount r)) of
          None \<Rightarrow> Inl Invariant_failed
        | Some c \<Rightarrow>
            Inr \<lparr>btn_disabled = None,
                 btn_action = Some
                   \<lparr>message =
                      (if supportsPermit r
                       then Trans [Text ''Allow '', Value (symbol c), Text '' first'']
                       else Trans [Text ''Approve '', Value (symbol c), Text '' first'']),
                    icon = None,
                    onClick = handleApproveOrPermit r,
                    children =
                      (if supportsPermit r then Trans [Text ''Allow'']
                       else Trans [Text ''Approve''])\<rparr>\<rparr>)
     else if pendingApproval r then
       Inr \<lparr>btn_disabled = Some True,
            btn_action = Some
              \<lparr>message =
                 EtherscanLink TRANSACTION (approvalHash r) (Trans [Text ''Approval pending'']),
               icon = Some Spinner,
               onClick = handleApproveOrPermit r,
               children = Trans [Text ''Approve'']\<rparr>\<rparr>
     else Inr \<lparr>btn_disabled = None, btn_action = None\<rparr>)"

subsection \<open>Promise chaining\<close>

text \<open>
  A handler runs on the world and either returns or throws. \<open>then\<close> runs its handler on
  fulfilment and passes a rejection on; \<open>catch\<close> runs its handler on rejection and passes a
  value on; \<open>finally\<close> runs its handler either way and keeps the settlement unless the
  handler throws. A handler that throws rejects the promise the combinator returns.
\<close>

definition then_promise ::
  "'a settled \<Rightarrow> ('a \<Rightarrow> world \<Rightarrow> (error + 'b) \<times> world) \<Rightarrow> world \<Rightarrow> 'b settled \<times> world" where
  "then_promise p onFulfilled w =
    (case p of
       Rejected e \<Rightarrow> (Rejected e, w)
     | Fulfilled v \<Rightarrow>
         (case onFulfilled v w of
            (Inl e, w') \<Rightarrow> (Rejected e, w')
          | (Inr x, w') \<Rightarrow> (Fulfilled x, w')))"

definition catch_promise ::
  "'a settled \<Rightarrow> (error \<Rightarrow> world \<Rightarrow> (error + 'a) \<times> world) \<Rightarrow> world \<Rightarrow> 'a settled \<times> world" where
  "catch_promise p onRejected w =
    (case p of
       Fulfilled v \<Rightarrow> (Fulfilled v, w)
     | Rejected e \<Rightarrow>
         (case onRejected e w of
            (Inl e', w') \<Rightarrow> (Rejected e', w')
          | (Inr x, w') \<Rightarrow> (Fulfilled x, w')))"

definition finally_promise ::
  "'a settled \<Rightarrow> (world \<Rightarrow> (error + unit) \<times> world) \<Rightarrow> world \<Rightarrow> 'a settled \<times> world" where
  "finally_promise p onFinally w =
    (case onFinally w of
       (Inl e, w') \<Rightarrow> (Rejected e, w')
     | (Inr _, w') \<Rightarrow> (p, w'))"

subsection \<open>The confirm action\<close>

text \<open>
  The three handlers of lines 144-161. The first writes the hash, then checks
  \<open>invariant(inputCurrencyAmount && outputCurrencyAmount)\<close>, then records the swap. The
  amounts and the trade type are the ones of the render that built the callback.
\<close>

definition onConfirm_then :: "'h hooks \<Rightarrow> TransactionResponse \<Rightarrow> world \<Rightarrow> (error + unit) \<times> world" where
  "onConfirm_then r response w =
    (let w1 = setDisplayTxHash (hash response) w in
     case inputCurrencyAmount r of
       None \<Rightarrow> (Inl Invariant_failed, w1)
     | Some inputAmt \<Rightarrow>
         (case outputCurrencyAmount r of
            None \<Rightarrow> (Inl Invariant_failed, w1)
          | Some outputAmt \<Rightarrow>
              (Inr (),
               addTransaction
                 \<lparr>info_response = response,
                  info_type = SWAP,
                  info_tradeType = tradeType r,
                  info_inputCurrencyAmount = inputAmt,
                  info_outputCurrencyAmount = outputAmt\<rparr> w1)))"

definition onConfirm_catch :: "error \<Rightarrow> world \<Rightarrow> (error + unit) \<times> world" where
  "onConfirm_catch e w = (Inr (), console_log e w)"

definition onConfirm_finally :: "world \<Rightarrow> (error + unit) \<times> world" where
  "onConfirm_finally w = (Inr (), setActiveTrade None w)"

text \<open>
  Lines 142-162. \<open>swapCallback?.()\<close> short-circuits the whole chain when the callback is
  absent: no handler is attached, the expression is undefined (\<open>None\<close>) and the world is as
  it was. Otherwise the result is the settlement of the last promise of the chain and the
  world after the handlers have run. The handlers read nothing of the world, so the world
  they run on may differ from the one of the click.
\<close>

definition onConfirm :: "'h hooks \<Rightarrow> world \<Rightarrow> unit settled option \<times> world" where
  "onConfirm r w =
    (case swapCallback r of
       None \<Rightarrow> (None, w)
     | Some callback \<Rightarrow>
         (let (p1, w1) = then_promise (callback ()) (onConfirm_then r) w;
              (p2, w2) = catch_promise p1 onConfirm_catch w1;
              (p3, w3) = finally_promise p2 onConfirm_finally w2
          in (Some p3, w3)))"

subsection \<open>The snapshot and the rendered elements\<close>

text \<open>JavaScript \<open>a && b\<close> on optional objects: the left operand when it is undefined.\<close>

definition js_and :: "'a option \<Rightarrow> 'b option \<Rightarrow> 'b option" where
  "js_and a b = (case a of None \<Rightarrow> None | Some _ \<Rightarrow> b)"

text \<open>
  Lines 52-54: the effect that runs when the live trade changes,
  \<open>setActiveTrade((activeTrade) => activeTrade && trade.trade)\<close>.
\<close>

definition tradeEffect :: "'h hooks \<Rightarrow> world \<Rightarrow> world" where
  "tradeEffect r w = setActiveTrade (js_and (activeTrade w) (trade r)) w"

text \<open>Line 168, the button's \<open>onClick\<close>, and line 174, the dialog's \<open>onClose\<close>.\<close>

definition onClick_ActionButton :: "'h hooks \<Rightarrow> world \<Rightarrow> world" where
  "onClick_ActionButton r w = setActiveTrade (trade r) w"

definition onClose_Dialog :: "world \<Rightarrow> world" where
  "onClose_Dialog w = setActiveTrade None w"

datatype color = interactive | accent | dialog_color

record 'h ActionButton =
  ab_color :: color
  ab_onClick :: "world \<Rightarrow> world"
  ab_disabled :: "bool option"
  ab_action :: "'h Action option"
  ab_children :: node

record SummaryDialog =
  sd_trade :: Trade
  sd_allowedSlippage :: "int \<times> int"
  sd_onConfirm :: "world \<Rightarrow> unit settled option \<times> world"

record Dialog =
  dlg_color :: color
  dlg_onClose :: "world \<Rightarrow> world"
  dlg_children :: SummaryDialog

record 'h rendered =
  button :: "'h ActionButton"
  dialog :: "Dialog option"

text \<open>
  Lines 164-179, for the value \<open>props\<close> of the memo. The spread \<open>{...actionProps}\<close> comes
  after \<open>color\<close> and \<open>onClick\<close> and holds neither key, so it only adds \<open>disabled\<close> and
  \<open>action\<close>. The dialog is the right operand of \<open>activeTrade && (...)\<close>.
\<close>

definition render :: "'h hooks \<Rightarrow> 'h ActionButtonProps \<Rightarrow> world \<Rightarrow> 'h rendered" where
  "render r props w =
    \<lparr>button =
       \<lparr>ab_color = (if tokenColorExtraction r then interactive else accent),
        ab_onClick = onClick_ActionButton r,
        ab_disabled = btn_disabled props,
        ab_action = btn_action props,
        ab_children = Trans [Text ''Review swap'']\<rparr>,
     dialog =
       (case activeTrade w of
          None \<Rightarrow> None
        | Some t \<Rightarrow>
            Some \<lparr>dlg_color = dialog_color,
                  dlg_onClose = onClose_Dialog,
                  dlg_children =
                    \<lparr>sd_trade = t,
                     sd_allowedSlippage = allowedSlippage r,
                     sd_onConfirm = onConfirm r\<rparr>\<rparr>)\<rparr>"

text \<open>One render of the component: it throws when the memo throws.\<close>

definition SwapButton :: "'h hooks \<Rightarrow> world \<Rightarrow> error + 'h rendered" where
  "SwapButton r w =
    (case actionProps r of
       Inl e \<Rightarrow> Inl e
     | Inr props \<Rightarrow> Inr (render r props w))"

text \<open>
  The four places that call \<open>setActiveTrade\<close>, as the events of the component: the live
  trade changed (line 53), the button was clicked (line 168), the dialog was closed
  (line 174), and a confirmed submission settled (line 160).
\<close>

datatype event = TradeChanged | ButtonClicked | DialogClosed | ConfirmSettled

fun step :: "'h hooks \<Rightarrow> event \<Rightarrow> world \<Rightarrow> world" where
  "step r TradeChanged w = tradeEffect r w"
| "step r ButtonClicked w = onClick_ActionButton r w"
| "step r DialogClosed w = onClose_Dialog w"
| "step r ConfirmSettled w = snd (onConfirm r w)"

subsection \<open>The four states of the descriptor\<close>

text \<open>
  The states the specification names, read off a descriptor: blocked is exactly
  \<open>{ disabled: true }\<close>; needs-approval is an enabled button with an action that has no
  icon; approval-pending is a disabled button whose action shows an explorer link and the
  spinner; ready is the empty descriptor. A button is enabled unless \<open>disabled\<close> is true.
\<close>

datatype ButtonState = disabled_insufficient_funds | needs_approval | approval_pending | ready

fun is_link :: "node \<Rightarrow> bool" where
  "is_link (EtherscanLink _ _ _) = True"
| "is_link (Trans _) = False"

fun in_state :: "ButtonState \<Rightarrow> 'h ActionButtonProps \<Rightarrow> bool" where
  "in_state disabled_insufficient_funds d =
     (btn_disabled d = Some True \<and> btn_action d = None)"
| "in_state needs_approval d =
     (btn_disabled d \<noteq> Some True \<and>
      (case btn_action d of None \<Rightarrow> False | Some a \<Rightarrow> icon a = None \<and> \<not> is_link (message a)))"
| "in_state approval_pending d =
     (btn_disabled d = Some True \<and>
      (case btn_action d of None \<Rightarrow> False | Some a \<Rightarrow> icon a = Some Spinner \<and> is_link (message a)))"
| "in_state ready d =
     (btn_disabled d \<noteq> Some True \<and> btn_action d = None)"

definition active_states :: "'h ActionButtonProps \<Rightarrow> ButtonState list" where
  "active_states d =
     filter (\<lambda>s. in_state s d)
       [disabled_insufficient_funds, needs_approval, approval_pending, ready]"

subsection \<open>A concrete render and a concrete world\<close>

text \<open>
  The scenario of the specification: 100 USDC for 0.05 ETH, quoted exact-input, on chain 1,
  with the balance covering the input, approval in place and a swap callback that submits
  with hash \<open>0xS\<close>. The world has the dialog open on that trade.
\<close>

definition USDC :: Currency where
  "USDC = \<lparr>isToken = True, symbol = Some ''USDC''\<rparr>"

definition ETH :: Currency where
  "ETH = \<lparr>isToken = False, symbol = Some ''ETH''\<rparr>"

definition usdc :: "int \<Rightarrow> CurrencyAmount" where
  "usdc n = \<lparr>currency = USDC, numerator = n * 1000000, denominator = 1\<rparr>"

definition eth_005 :: CurrencyAmount where
  "eth_005 = \<lparr>currency = ETH, numerator = 50000000000000000, denominator = 1\<rparr>"

definition example_trade :: Trade where
  "example_trade = Trade EXACT_INPUT (usdc 100) eth_005"

definition example_hooks :: "string hooks" where
  "example_hooks =
    \<lparr>disabled = None,
     chainId = Some 1,
     tokenColorExtraction = False,
     trade = Some example_trade,
     allowedSlippage = (1, 200),
     inputCurrency = Some USDC,
     inputCurrencyBalance = Some (usdc 250),
     inputCurrencyAmount = Some (usdc 100),
     outputCurrencyAmount = Some eth_005,
     tradeType = EXACT_INPUT,
     approvalCurrencyAmount = Some (usdc 100),
     notApproved = False,
     pendingApproval = False,
     loadingSignature = False,
     supportsPermit = False,
     handleApproveOrPermit = ''handleApproveOrPermit'',
     approvalHash = None,
     swapCallback = Some (\<lambda>_. Fulfilled \<lparr>hash = ''0xS''\<rparr>)\<rparr>"

definition example_world :: world where
  "example_world =
    \<lparr>activeTrade = Some example_trade,
     displayTxHash = None,
     transactions = [],
     console = []\<rparr>"

section \<open>Helper equations\<close>

text \<open>The confirm action, outcome by outcome.\<close>

lemma onConfirm_absent: "swapCallback r = None \<Longrightarrow> onConfirm r w = (None, w)"
  by (simp add: onConfirm_def)

lemma onConfirm_rejected:
  "swapCallback r = Some cb \<Longrightarrow> cb () = Rejected e \<Longrightarrow>
   onConfirm r w = (Some (Fulfilled ()), setActiveTrade None (console_log e w))"
  by (simp add: onConfirm_def then_promise_def catch_promise_def finally_promise_def
      onConfirm_catch_def onConfirm_finally_def)

lemma onConfirm_then_recorded:
  "inputCurrencyAmount r = Some i \<Longrightarrow> outputCurrencyAmount r = Some out \<Longrightarrow>
   onConfirm_then r response w =
     (Inr (),
      addTransaction
        \<lparr>info_response = response, info_type = SWAP, info_tradeType = tradeType r,
         info_inputCurrencyAmount = i, info_outputCurrencyAmount = out\<rparr>
        (setDisplayTxHash (hash response) w))"
  by (simp add: onConfirm_then_def)

lemma onConfirm_then_invariant:
  "inputCurrencyAmount r = None \<or> outputCurrencyAmount r = None \<Longrightarrow>
   onConfirm_then r response w = (Inl Invariant_failed, setDisplayTxHash (hash response) w)"
  by (cases "inputCurrencyAmount r") (auto simp add: onConfirm_then_def)

lemma onConfirm_recorded:
  "swapCallback r = Some cb \<Longrightarrow> cb () = Fulfilled response \<Longrightarrow>
   inputCurrencyAmount r = Some i \<Longrightarrow> outputCurrencyAmount r = Some out \<Longrightarrow>
   onConfirm r w =
     (Some (Fulfilled ()),
      setActiveTrade None
        (addTransaction
          \<lparr>info_response = response, info_type = SWAP, info_tradeType = tradeType r,
           info_inputCurrencyAmount = i, info_outputCurrencyAmount = out\<rparr>
          (setDisplayTxHash (hash response) w)))"
  by (simp add: onConfirm_def then_promise_def catch_promise_def finally_promise_def
      onConfirm_then_recorded onConfirm_finally_def)

lemma onConfirm_invariant:
  "swapCallback r = Some cb \<Longrightarrow> cb () = Fulfilled response \<Longrightarrow>
   inputCurrencyAmount r = None \<or> outputCurrencyAmount r = None \<Longrightarrow>
   onConfirm r w =
     (Some (Fulfilled ()),
      setActiveTrade None (console_log Invariant_failed (setDisplayTxHash (hash response) w)))"
  by (simp add: onConfirm_def then_promise_def catch_promise_def finally_promise_def
      onConfirm_then_invariant onConfirm_catch_def onConfirm_finally_def)

text \<open>The stores, field by field, after each setter.\<close>

lemma setActiveTrade_fields:
  "activeTrade (setActiveTrade t w) = t"
  "displayTxHash (setActiveTrade t w) = displayTxHash w"
  "transactions (setActiveTrade t w) = transactions w"
  "console (setActiveTrade t w) = console w"
  by (simp_all add: setActiveTrade_def)

lemma setDisplayTxHash_fields:
  "activeTrade (setDisplayTxHash h w) = activeTrade w"
  "displayTxHash (setDisplayTxHash h w) = Some h"
  "transactions (setDisplayTxHash h w) = transactions w"
  "console (setDisplayTxHash h w) = console w"
  by (simp_all add: setDisplayTxHash_def)

lemma addTransaction_fields:
  "activeTrade (addTransaction i w) = activeTrade w"
  "displayTxHash (addTransaction i w) = displayTxHash w"
  "transactions (addTransaction i w) = transactions w @ [i]"
  "console (addTransaction i w) = console w"
  by (simp_all add: addTransaction_def)

lemma console_log_fields:
  "activeTrade (console_log e w) = activeTrade w"
  "displayTxHash (console_log e w) = displayTxHash w"
  "transactions (console_log e w) = transactions w"
  "console (console_log e w) = console w @ [e]"
  by (simp_all add: console_log_def)

lemmas store_fields =
  setActiveTrade_fields setDisplayTxHash_fields addTransaction_fields console_log_fields

text \<open>The descriptor, branch by branch.\<close>

lemma actionProps_blocked:
  "blocked r \<Longrightarrow> actionProps r = Inr \<lparr>btn_disabled = Some True, btn_action = None\<rparr>"
  by (simp add: actionProps_def)

lemma actionProps_notApproved_currency:
  "\<not> blocked r \<Longrightarrow> notApproved r \<Longrightarrow>
   (case inputCurrency r of
      Some c \<Rightarrow> Some c
    | None \<Rightarrow> map_option currency (approvalCurrencyAmount r)) = Some c \<Longrightarrow>
   actionProps r =
     Inr \<lparr>btn_disabled = None,
          btn_action = Some
            \<lparr>message =
               (if supportsPermit r
                then Trans [Text ''Allow '', Value (symbol c), Text '' first'']
                else Trans [Text ''Approve '', Value (symbol c), Text '' first'']),
             icon = None,
             onClick = handleApproveOrPermit r,
             children =
               (if supportsPermit r then Trans [Text ''Allow''] else Trans [Text ''Approve''])\<rparr>\<rparr>"
  by (simp add: actionProps_def)

lemma actionProps_notApproved_no_currency:
  "\<not> blocked r \<Longrightarrow> notApproved r \<Longrightarrow> inputCurrency r = None \<Longrightarrow>
   approvalCurrencyAmount r = None \<Longrightarrow> actionProps r = Inl Invariant_failed"
  by (simp add: actionProps_def)

lemma actionProps_pending:
  "\<not> blocked r \<Longrightarrow> \<not> notApproved r \<Longrightarrow> pendingApproval r \<Longrightarrow>
   actionProps r =
     Inr \<lparr>btn_disabled = Some True,
          btn_action = Some
            \<lparr>message =
               EtherscanLink TRANSACTION (approvalHash r) (Trans [Text ''Approval pending'']),
             icon = Some Spinner,
             onClick = handleApproveOrPermit r,
             children = Trans [Text ''Approve'']\<rparr>\<rparr>"
  by (simp add: actionProps_def)

lemma actionProps_ready:
  "\<not> blocked r \<Longrightarrow> \<not> notApproved r \<Longrightarrow> \<not> pendingApproval r \<Longrightarrow>
   actionProps r = Inr \<lparr>btn_disabled = None, btn_action = None\<rparr>"
  by (simp add: actionProps_def)

lemma currency_found:
  "inputCurrency r \<noteq> None \<or> approvalCurrencyAmount r \<noteq> None \<Longrightarrow>
   \<exists>c. (case inputCurrency r of
           Some c \<Rightarrow> Some c
         | None \<Rightarrow> map_option currency (approvalCurrencyAmount r)) = Some c"
  by (cases "inputCurrency r") auto

lemma actionProps_needs_approval:
  assumes "\<not> blocked r" and "notApproved r"
    and "inputCurrency r \<noteq> None \<or> approvalCurrencyAmount r \<noteq> None"
  shows "\<exists>d a. actionProps r = Inr d \<and> active_states d = [needs_approval] \<and>
           btn_disabled d = None \<and> btn_action d = Some a \<and>
           onClick a = handleApproveOrPermit r"
proof -
  from assms(3) obtain c where
    "(case inputCurrency r of
        Some c \<Rightarrow> Some c
      | None \<Rightarrow> map_option currency (approvalCurrencyAmount r)) = Some c"
    using currency_found by blast
  with assms(1,2) show ?thesis
    by (simp add: actionProps_notApproved_currency active_states_def)
qed

lemma actionProps_returns:
  assumes "blocked r \<or> \<not> notApproved r \<or> inputCurrency r \<noteq> None \<or>
           approvalCurrencyAmount r \<noteq> None"
  shows "\<exists>d. actionProps r = Inr d"
proof (cases "blocked r")
  case True
  then show ?thesis by (simp add: actionProps_blocked)
next
  case nb: False
  show ?thesis
  proof (cases "notApproved r")
    case True
    with nb assms have "inputCurrency r \<noteq> None \<or> approvalCurrencyAmount r \<noteq> None"
      by blast
    with nb True show ?thesis using actionProps_needs_approval by blast
  next
    case False
    with nb show ?thesis
      by (cases "pendingApproval r") (simp_all add: actionProps_pending actionProps_ready)
  qed
qed

text \<open>Evaluation of the concrete render.\<close>

lemmas example_defs =
  example_hooks_def example_world_def example_trade_def usdc_def eth_005_def USDC_def ETH_def

lemma example_not_blocked: "\<not> blocked example_hooks"
  by (simp add: blocked_def insufficientBalance_def lessThan_amount_def example_defs)

section \<open>The confirm action\<close>

text \<open>
  C1, as stated: every invocation of \<open>onConfirm\<close> clears \<open>activeTrade\<close>, also when the swap
  callback is absent. It fails: with no callback the optional call short-circuits the chain,
  the cleanup of \<open>finally\<close> is never attached, and the dialog stays open on its trade.
\<close>

theorem onConfirm_no_callback_keeps_activeTrade:
  "activeTrade (snd (onConfirm (example_hooks\<lparr>swapCallback := None\<rparr>) example_world))
     = Some example_trade"
  by (simp add: onConfirm_def example_defs)

text \<open>
  C1, amended: whenever the swap callback is present, \<open>activeTrade\<close> is absent after
  \<open>onConfirm\<close>, however the submission settles and whether or not the amounts are there;
  when the callback is absent, \<open>onConfirm\<close> does nothing and leaves the world, and with it
  \<open>activeTrade\<close>, as it was.
\<close>

theorem onConfirm_clears_activeTrade:
  "(swapCallback r \<noteq> None \<longrightarrow> activeTrade (snd (onConfirm r w)) = None) \<and>
   (swapCallback r = None \<longrightarrow> onConfirm r w = (None, w))"
proof (intro conjI impI)
  assume "swapCallback r \<noteq> None"
  then obtain cb where cb: "swapCallback r = Some cb" by auto
  show "activeTrade (snd (onConfirm r w)) = None"
  proof (cases "cb ()")
    case (Rejected e)
    with cb show ?thesis by (simp add: onConfirm_rejected setActiveTrade_fields)
  next
    case (Fulfilled response)
    show ?thesis
    proof (cases "inputCurrencyAmount r = None \<or> outputCurrencyAmount r = None")
      case True
      with cb Fulfilled show ?thesis by (simp add: onConfirm_invariant setActiveTrade_fields)
    next
      case False
      then obtain i out where "inputCurrencyAmount r = Some i" "outputCurrencyAmount r = Some out"
        by auto
      with cb Fulfilled show ?thesis by (simp add: onConfirm_recorded setActiveTrade_fields)
    qed
  qed
next
  assume "swapCallback r = None"
  then show "onConfirm r w = (None, w)" by (rule onConfirm_absent)
qed

theorem onConfirm_clears_activeTrade_witness:
  "swapCallback example_hooks \<noteq> None \<and>
   activeTrade example_world \<noteq> None \<and>
   activeTrade (snd (onConfirm example_hooks example_world)) = None \<and>
   swapCallback (example_hooks\<lparr>swapCallback := None\<rparr>) = None \<and>
   onConfirm (example_hooks\<lparr>swapCallback := None\<rparr>) example_world = (None, example_world)"
  using onConfirm_clears_activeTrade [of example_hooks example_world]
    onConfirm_clears_activeTrade [of "example_hooks\<lparr>swapCallback := None\<rparr>" example_world]
  by (simp add: example_defs)

text \<open>
  C3: when the promise of the swap callback rejects with \<open>e\<close>, the transaction log and the
  display slot are as before, \<open>e\<close> is printed and nothing else, and the chain ends
  fulfilled, so that no rejection is left unhandled.
\<close>

theorem onConfirm_rejection_swallowed:
  assumes "swapCallback r = Some cb" and "cb () = Rejected e"
  shows "transactions (snd (onConfirm r w)) = transactions w \<and>
         displayTxHash (snd (onConfirm r w)) = displayTxHash w \<and>
         console (snd (onConfirm r w)) = console w @ [e] \<and>
         fst (onConfirm r w) = Some (Fulfilled ())"
  using assms by (simp add: onConfirm_rejected store_fields)

theorem onConfirm_rejection_swallowed_witness:
  "transactions
     (snd (onConfirm (example_hooks\<lparr>swapCallback := Some (\<lambda>_. Rejected (Rejection ''denied''))\<rparr>)
        example_world)) = [] \<and>
   displayTxHash
     (snd (onConfirm (example_hooks\<lparr>swapCallback := Some (\<lambda>_. Rejected (Rejection ''denied''))\<rparr>)
        example_world)) = None \<and>
   console
     (snd (onConfirm (example_hooks\<lparr>swapCallback := Some (\<lambda>_. Rejected (Rejection ''denied''))\<rparr>)
        example_world)) = [Rejection ''denied''] \<and>
   fst (onConfirm (example_hooks\<lparr>swapCallback := Some (\<lambda>_. Rejected (Rejection ''denied''))\<rparr>)
        example_world) = Some (Fulfilled ())"
  using onConfirm_rejection_swallowed
    [of "example_hooks\<lparr>swapCallback := Some (\<lambda>_. Rejected (Rejection ''denied''))\<rparr>"
        "\<lambda>_. Rejected (Rejection ''denied'')" "Rejection ''denied''" example_world]
  by (simp add: example_defs)

text \<open>
  C4: when the promise fulfils with \<open>response\<close> and both amounts are present, the display
  slot holds the hash of \<open>response\<close> and the log is the old log followed by one record, of
  type \<open>SWAP\<close>, with the trade type and the two amounts; when an amount is missing the
  handler throws \<open>Invariant_failed\<close> and the log is as before.
\<close>

theorem onConfirm_success_records_swap:
  assumes "swapCallback r = Some cb" and "cb () = Fulfilled response"
  shows "(inputCurrencyAmount r = Some i \<and> outputCurrencyAmount r = Some out \<longrightarrow>
            displayTxHash (snd (onConfirm r w)) = Some (hash response) \<and>
            transactions (snd (onConfirm r w)) =
              transactions w @
                [\<lparr>info_response = response, info_type = SWAP, info_tradeType = tradeType r,
                  info_inputCurrencyAmount = i, info_outputCurrencyAmount = out\<rparr>]) \<and>
         (inputCurrencyAmount r = None \<or> outputCurrencyAmount r = None \<longrightarrow>
            fst (onConfirm_then r response w) = Inl Invariant_failed \<and>
            transactions (snd (onConfirm r w)) = transactions w)"
  using assms by (simp add: onConfirm_recorded onConfirm_invariant onConfirm_then_invariant store_fields)

theorem onConfirm_success_records_swap_witness:
  "displayTxHash (snd (onConfirm example_hooks example_world)) = Some ''0xS'' \<and>
   transactions (snd (onConfirm example_hooks example_world)) =
     [\<lparr>info_response = \<lparr>hash = ''0xS''\<rparr>, info_type = SWAP, info_tradeType = EXACT_INPUT,
       info_inputCurrencyAmount = usdc 100, info_outputCurrencyAmount = eth_005\<rparr>] \<and>
   fst (onConfirm_then (example_hooks\<lparr>inputCurrencyAmount := None\<rparr>) \<lparr>hash = ''0xS''\<rparr>
          example_world) = Inl Invariant_failed \<and>
   transactions (snd (onConfirm (example_hooks\<lparr>inputCurrencyAmount := None\<rparr>) example_world)) = []"
  using onConfirm_success_records_swap
    [of example_hooks "\<lambda>_. Fulfilled \<lparr>hash = ''0xS''\<rparr>" "\<lparr>hash = ''0xS''\<rparr>"
        "usdc 100" eth_005 example_world]
    onConfirm_success_records_swap
    [of "example_hooks\<lparr>inputCurrencyAmount := None\<rparr>" "\<lambda>_. Fulfilled \<lparr>hash = ''0xS''\<rparr>"
        "\<lparr>hash = ''0xS''\<rparr>" "usdc 100" eth_005 example_world]
  by (simp add: example_hooks_def example_world_def)

text \<open>
  C9: on fulfilment with an amount missing, the first handler throws after it has written
  the hash: the world it leaves already holds the hash in the display slot. After the whole
  chain the slot holds the hash, the log is as before, \<open>Invariant_failed\<close> is printed and
  the chain ends fulfilled, so the error is not propagated.
\<close>

theorem onConfirm_hash_written_before_invariant:
  assumes "swapCallback r = Some cb" and "cb () = Fulfilled response"
    and "inputCurrencyAmount r = None \<or> outputCurrencyAmount r = None"
  shows "onConfirm_then r response w = (Inl Invariant_failed, setDisplayTxHash (hash response) w) \<and>
         displayTxHash (snd (onConfirm r w)) = Some (hash response) \<and>
         transactions (snd (onConfirm r w)) = transactions w \<and>
         console (snd (onConfirm r w)) = console w @ [Invariant_failed] \<and>
         fst (onConfirm r w) = Some (Fulfilled ())"
  using assms by (simp add: onConfirm_invariant onConfirm_then_invariant store_fields)

theorem onConfirm_hash_written_before_invariant_witness:
  "displayTxHash example_world = None \<and>
   displayTxHash (snd (onConfirm (example_hooks\<lparr>outputCurrencyAmount := None\<rparr>) example_world))
     = Some ''0xS'' \<and>
   transactions (snd (onConfirm (example_hooks\<lparr>outputCurrencyAmount := None\<rparr>) example_world))
     = [] \<and>
   console (snd (onConfirm (example_hooks\<lparr>outputCurrencyAmount := None\<rparr>) example_world))
     = [Invariant_failed] \<and>
   fst (onConfirm (example_hooks\<lparr>outputCurrencyAmount := None\<rparr>) example_world)
     = Some (Fulfilled ())"
  using onConfirm_hash_written_before_invariant
    [of "example_hooks\<lparr>outputCurrencyAmount := None\<rparr>" "\<lambda>_. Fulfilled \<lparr>hash = ''0xS''\<rparr>"
        "\<lparr>hash = ''0xS''\<rparr>" example_world]
  by (simp add: example_hooks_def example_world_def)

section \<open>The derived descriptor\<close>

text \<open>
  C6: when the caller passed \<open>disabled\<close>, or the chain identifier is unknown, or a
  signature request is in flight, or amount and balance are both present with the balance
  less than the amount, the descriptor is \<open>{ disabled: true }\<close>, with no action, whatever
  the approval hook reports.
\<close>

theorem actionProps_disabled_without_action:
  assumes "disabled r = Some True \<or> chainId r = None \<or> loadingSignature r \<or>
           (inputCurrencyAmount r = Some amount \<and> inputCurrencyBalance r = Some balance \<and>
            lessThan_amount balance amount)"
  shows "actionProps r = Inr \<lparr>btn_disabled = Some True, btn_action = None\<rparr>"
proof -
  from assms have "blocked r"
    by (auto simp add: blocked_def insufficientBalance_def)
  then show ?thesis by (rule actionProps_blocked)
qed

theorem actionProps_disabled_without_action_witness:
  "lessThan_amount (usdc 50) (usdc 100) \<and>
   actionProps (example_hooks\<lparr>inputCurrencyBalance := Some (usdc 50), notApproved := True,
                  supportsPermit := True\<rparr>)
     = Inr \<lparr>btn_disabled = Some True, btn_action = None\<rparr> \<and>
   actionProps (example_hooks\<lparr>inputCurrencyBalance := Some (usdc 50), pendingApproval := True,
                  approvalHash := Some ''0xH''\<rparr>)
     = Inr \<lparr>btn_disabled = Some True, btn_action = None\<rparr>"
  using actionProps_disabled_without_action
    [of "example_hooks\<lparr>inputCurrencyBalance := Some (usdc 50), notApproved := True,
           supportsPermit := True\<rparr>" "usdc 100" "usdc 50"]
    actionProps_disabled_without_action
    [of "example_hooks\<lparr>inputCurrencyBalance := Some (usdc 50), pendingApproval := True,
           approvalHash := Some ''0xH''\<rparr>" "usdc 100" "usdc 50"]
  by (simp add: example_hooks_def lessThan_amount_def usdc_def)

text \<open>
  C10: on a button that the other three tests do not block, an absent amount or an absent
  balance makes the insufficient-funds test false; the descriptor is then never
  \<open>{ disabled: true }\<close> and is the one of the approval branches: needs-approval (or the
  currency invariant) under \<open>notApproved\<close>, approval-pending under \<open>pendingApproval\<close>
  alone, and the empty descriptor otherwise.
\<close>

theorem actionProps_absent_balance_falls_through:
  assumes "\<not> truthy_bool (disabled r)" and "truthy_num (chainId r)" and "\<not> loadingSignature r"
    and "inputCurrencyAmount r = None \<or> inputCurrencyBalance r = None"
  shows "\<not> insufficientBalance r \<and>
         actionProps r \<noteq> Inr \<lparr>btn_disabled = Some True, btn_action = None\<rparr> \<and>
         (notApproved r \<longrightarrow>
            (case actionProps r of
               Inl e \<Rightarrow> e = Invariant_failed
             | Inr d \<Rightarrow> in_state needs_approval d)) \<and>
         (\<not> notApproved r \<and> pendingApproval r \<longrightarrow>
            (case actionProps r of
               Inl e \<Rightarrow> False
             | Inr d \<Rightarrow> in_state approval_pending d)) \<and>
         (\<not> notApproved r \<and> \<not> pendingApproval r \<longrightarrow>
            actionProps r = Inr \<lparr>btn_disabled = None, btn_action = None\<rparr>)"
proof -
  from assms(4) have suff: "\<not> insufficientBalance r"
    by (cases "inputCurrencyAmount r") (auto simp add: insufficientBalance_def)
  with assms(1-3) have nb: "\<not> blocked r"
    by (simp add: blocked_def)
  have "actionProps r \<noteq> Inr \<lparr>btn_disabled = Some True, btn_action = None\<rparr>"
    using nb by (auto simp add: actionProps_def split: option.splits)
  moreover have "notApproved r \<longrightarrow>
      (case actionProps r of Inl e \<Rightarrow> e = Invariant_failed | Inr d \<Rightarrow> in_state needs_approval d)"
    using nb by (auto simp add: actionProps_def split: option.splits)
  moreover have "\<not> notApproved r \<and> pendingApproval r \<longrightarrow>
      (case actionProps r of Inl e \<Rightarrow> False | Inr d \<Rightarrow> in_state approval_pending d)"
    using nb by (simp add: actionProps_pending)
  moreover have "\<not> notApproved r \<and> \<not> pendingApproval r \<longrightarrow>
      actionProps r = Inr \<lparr>btn_disabled = None, btn_action = None\<rparr>"
    using nb by (simp add: actionProps_ready)
  ultimately show ?thesis using suff by blast
qed

theorem actionProps_absent_balance_falls_through_witness:
  "inputCurrencyBalance (example_hooks\<lparr>inputCurrencyBalance := None, notApproved := True\<rparr>) = None \<and>
   (case actionProps (example_hooks\<lparr>inputCurrencyBalance := None, notApproved := True\<rparr>) of
      Inl e \<Rightarrow> e = Invariant_failed
    | Inr d \<Rightarrow> in_state needs_approval d) \<and>
   inputCurrencyAmount (example_hooks\<lparr>inputCurrencyAmount := None, pendingApproval := True\<rparr>) = None \<and>
   (case actionProps (example_hooks\<lparr>inputCurrencyAmount := None, pendingApproval := True\<rparr>) of
      Inl e \<Rightarrow> False
    | Inr d \<Rightarrow> in_state approval_pending d) \<and>
   actionProps (example_hooks\<lparr>inputCurrencyBalance := None\<rparr>)
     = Inr \<lparr>btn_disabled = None, btn_action = None\<rparr>"
  using actionProps_absent_balance_falls_through
    [of "example_hooks\<lparr>inputCurrencyBalance := None, notApproved := True\<rparr>"]
    actionProps_absent_balance_falls_through
    [of "example_hooks\<lparr>inputCurrencyAmount := None, pendingApproval := True\<rparr>"]
    actionProps_absent_balance_falls_through
    [of "example_hooks\<lparr>inputCurrencyBalance := None\<rparr>"]
  by (simp add: example_hooks_def)

text \<open>
  C2, as stated: with an approval hash in the registry and \<open>pendingApproval\<close> reported, the
  state is approval-pending and the control disabled whatever \<open>notApproved\<close> reports. It
  fails: \<open>notApproved\<close> is tested first, and with it the descriptor is the enabled
  needs-approval one, with no link to the hash.
\<close>

theorem actionProps_notApproved_overrides_pending:
  "actionProps (example_hooks\<lparr>notApproved := True, pendingApproval := True,
                  approvalHash := Some ''0xH''\<rparr>)
     = Inr \<lparr>btn_disabled = None,
            btn_action = Some
              \<lparr>message = Trans [Text ''Approve '', Value (Some ''USDC''), Text '' first''],
               icon = None,
               onClick = ''handleApproveOrPermit'',
               children = Trans [Text ''Approve'']\<rparr>\<rparr>"
  by (simp add: actionProps_def blocked_def insufficientBalance_def lessThan_amount_def
      example_hooks_def usdc_def USDC_def)

text \<open>
  C2, amended: whenever \<open>pendingApproval\<close> is reported, the button is not blocked by the
  first test and \<open>notApproved\<close> is false, the descriptor is the approval-pending one: it is
  disabled, its message is an explorer link of type transaction to \<open>approvalHash\<close>, its
  icon is the spinner and its click handler is \<open>handleApproveOrPermit\<close>. \<open>notApproved\<close>
  is tested first: when it is reported on an unblocked button and a currency is present
  (\<open>inputCurrency\<close> or the one of the approval amount), the state is needs-approval, the
  control is enabled and the click handler is \<open>handleApproveOrPermit\<close>, whatever
  \<open>pendingApproval\<close> reports.
\<close>

theorem actionProps_approval_pending:
  "(pendingApproval r \<and> \<not> notApproved r \<and> \<not> blocked r \<longrightarrow>
      actionProps r =
        Inr \<lparr>btn_disabled = Some True,
             btn_action = Some
               \<lparr>message =
                  EtherscanLink TRANSACTION (approvalHash r) (Trans [Text ''Approval pending'']),
                icon = Some Spinner,
                onClick = handleApproveOrPermit r,
                children = Trans [Text ''Approve'']\<rparr>\<rparr> \<and>
      (\<exists>d. actionProps r = Inr d \<and> active_states d = [approval_pending])) \<and>
   (notApproved r \<and> \<not> blocked r \<and>
    (inputCurrency r \<noteq> None \<or> approvalCurrencyAmount r \<noteq> None) \<longrightarrow>
      (\<exists>d a. actionProps r = Inr d \<and> active_states d = [needs_approval] \<and>
         btn_disabled d = None \<and> btn_action d = Some a \<and>
         onClick a = handleApproveOrPermit r))"
proof (intro conjI impI)
  assume "pendingApproval r \<and> \<not> notApproved r \<and> \<not> blocked r"
  then show "actionProps r =
        Inr \<lparr>btn_disabled = Some True,
             btn_action = Some
               \<lparr>message =
                  EtherscanLink TRANSACTION (approvalHash r) (Trans [Text ''Approval pending'']),
                icon = Some Spinner,
                onClick = handleApproveOrPermit r,
                children = Trans [Text ''Approve'']\<rparr>\<rparr>"
    by (simp add: actionProps_pending)
next
  assume "pendingApproval r \<and> \<not> notApproved r \<and> \<not> blocked r"
  then show "\<exists>d. actionProps r = Inr d \<and> active_states d = [approval_pending]"
    by (simp add: actionProps_pending active_states_def)
next
  assume "notApproved r \<and> \<not> blocked r \<and>
    (inputCurrency r \<noteq> None \<or> approvalCurrencyAmount r \<noteq> None)"
  then show "\<exists>d a. actionProps r = Inr d \<and> active_states d = [needs_approval] \<and>
         btn_disabled d = None \<and> btn_action d = Some a \<and>
         onClick a = handleApproveOrPermit r"
    using actionProps_needs_approval by blast
qed

theorem actionProps_approval_pending_witness:
  "\<not> blocked (example_hooks\<lparr>pendingApproval := True, approvalHash := Some ''0xH''\<rparr>) \<and>
   actionProps (example_hooks\<lparr>pendingApproval := True, approvalHash := Some ''0xH''\<rparr>) =
     Inr \<lparr>btn_disabled = Some True,
          btn_action = Some
            \<lparr>message = EtherscanLink TRANSACTION (Some ''0xH'') (Trans [Text ''Approval pending'']),
             icon = Some Spinner,
             onClick = ''handleApproveOrPermit'',
             children = Trans [Text ''Approve'']\<rparr>\<rparr> \<and>
   \<not> blocked (example_hooks\<lparr>notApproved := True, pendingApproval := True\<rparr>) \<and>
   inputCurrency (example_hooks\<lparr>notApproved := True, pendingApproval := True\<rparr>) \<noteq> None \<and>
   (\<exists>d a. actionProps (example_hooks\<lparr>notApproved := True, pendingApproval := True\<rparr>) = Inr d \<and>
      active_states d = [needs_approval] \<and> btn_disabled d = None \<and> btn_action d = Some a \<and>
      onClick a = ''handleApproveOrPermit'')"
  using actionProps_approval_pending
    [of "example_hooks\<lparr>pendingApproval := True, approvalHash := Some ''0xH''\<rparr>"]
    actionProps_approval_pending
    [of "example_hooks\<lparr>notApproved := True, pendingApproval := True\<rparr>"]
  by (simp add: blocked_def insufficientBalance_def lessThan_amount_def example_hooks_def usdc_def)

text \<open>
  C5, as stated: every combination of inputs gives a descriptor in exactly one state. It
  fails where the derivation gives no descriptor at all: an unblocked button with
  \<open>notApproved\<close> and neither \<open>inputCurrency\<close> nor an approval amount throws at
  \<open>invariant(currency)\<close>.
\<close>

theorem actionProps_throws_without_currency:
  "actionProps (example_hooks\<lparr>notApproved := True, inputCurrency := None,
                  approvalCurrencyAmount := None\<rparr>)
     = Inl Invariant_failed"
  by (simp add: actionProps_def blocked_def insufficientBalance_def lessThan_amount_def
      example_hooks_def usdc_def)

text \<open>
  C5, amended: unless the button is unblocked, \<open>notApproved\<close> holds and neither
  \<open>inputCurrency\<close> nor the approval amount is present (where the derivation throws
  instead), the derivation returns a descriptor, and exactly one of the four states is
  active on it.
\<close>

theorem actionProps_exactly_one_state:
  assumes "blocked r \<or> \<not> notApproved r \<or> inputCurrency r \<noteq> None \<or> approvalCurrencyAmount r \<noteq> None"
  shows "\<exists>d. actionProps r = Inr d \<and> length (active_states d) = 1"
proof (cases "blocked r")
  case True
  then show ?thesis by (simp add: actionProps_blocked active_states_def)
next
  case nb: False
  show ?thesis
  proof (cases "notApproved r")
    case True
    with nb assms have "inputCurrency r \<noteq> None \<or> approvalCurrencyAmount r \<noteq> None" by blast
    then obtain c where "(case inputCurrency r of
           Some c \<Rightarrow> Some c
         | None \<Rightarrow> map_option currency (approvalCurrencyAmount r)) = Some c"
      using currency_found by blast
    with nb True show ?thesis
      by (simp add: actionProps_notApproved_currency active_states_def)
  next
    case False
    with nb show ?thesis
      by (cases "pendingApproval r") (simp_all add: actionProps_pending actionProps_ready active_states_def)
  qed
qed

theorem actionProps_exactly_one_state_witness:
  "\<not> notApproved example_hooks \<and>
   (\<exists>d. actionProps example_hooks = Inr d \<and> length (active_states d) = 1)"
  using actionProps_exactly_one_state [of example_hooks]
  by (simp add: example_hooks_def)

section \<open>The snapshot and the dialog\<close>

text \<open>
  C7: when the live trade changes, a snapshot that is set is replaced with the live trade
  (\<open>trade.trade\<close>, which may itself be undefined) and an absent one stays absent; the
  button's click handler sets the snapshot to the live trade of its render; and of the
  four events that write the snapshot, only the click takes it from absent to set.
\<close>

theorem snapshot_follows_trade_only_when_set:
  "(activeTrade w \<noteq> None \<longrightarrow> activeTrade (tradeEffect r w) = trade r) \<and>
   (activeTrade w = None \<longrightarrow> activeTrade (tradeEffect r w) = None) \<and>
   activeTrade (ab_onClick (button (render r props w)) w) = trade r \<and>
   (activeTrade w = None \<and> activeTrade (step r e w) \<noteq> None \<longrightarrow> e = ButtonClicked)"
proof (intro conjI impI)
  assume "activeTrade w \<noteq> None"
  then show "activeTrade (tradeEffect r w) = trade r"
    by (auto simp add: tradeEffect_def js_and_def setActiveTrade_fields)
next
  assume "activeTrade w = None"
  then show "activeTrade (tradeEffect r w) = None"
    by (simp add: tradeEffect_def js_and_def setActiveTrade_fields)
next
  show "activeTrade (ab_onClick (button (render r props w)) w) = trade r"
    by (simp add: render_def onClick_ActionButton_def setActiveTrade_fields)
next
  assume "activeTrade w = None \<and> activeTrade (step r e w) \<noteq> None"
  then have absent: "activeTrade w = None" and a: "activeTrade (step r e w) \<noteq> None"
    by simp_all
  show "e = ButtonClicked"
  proof (cases e)
    case TradeChanged
    with a absent show ?thesis by (simp add: tradeEffect_def js_and_def setActiveTrade_fields)
  next
    case ButtonClicked
    then show ?thesis .
  next
    case DialogClosed
    with a show ?thesis by (simp add: onClose_Dialog_def setActiveTrade_fields)
  next
    case ConfirmSettled
    have "activeTrade (snd (onConfirm r w)) = None"
    proof (cases "swapCallback r")
      case None
      with absent show ?thesis by (simp add: onConfirm_absent)
    next
      case (Some cb)
      show ?thesis
      proof (cases "cb ()")
        case (Rejected err)
        with Some show ?thesis by (simp add: onConfirm_rejected setActiveTrade_fields)
      next
        case (Fulfilled response)
        show ?thesis
        proof (cases "inputCurrencyAmount r = None \<or> outputCurrencyAmount r = None")
          case True
          with Some Fulfilled show ?thesis
            by (simp add: onConfirm_invariant setActiveTrade_fields)
        next
          case False
          then obtain i out where
            "inputCurrencyAmount r = Some i" "outputCurrencyAmount r = Some out"
            by auto
          with Some Fulfilled show ?thesis
            by (simp add: onConfirm_recorded setActiveTrade_fields)
        qed
      qed
    qed
    with a ConfirmSettled show ?thesis by simp
  qed
qed

theorem snapshot_follows_trade_only_when_set_witness:
  "activeTrade example_world \<noteq> None \<and>
   activeTrade (tradeEffect (example_hooks\<lparr>trade := Some (Trade EXACT_INPUT (usdc 100) (usdc 7))\<rparr>)
     example_world) = Some (Trade EXACT_INPUT (usdc 100) (usdc 7)) \<and>
   activeTrade (example_world\<lparr>activeTrade := None\<rparr>) = None \<and>
   activeTrade (tradeEffect example_hooks (example_world\<lparr>activeTrade := None\<rparr>)) = None \<and>
   activeTrade (step example_hooks ButtonClicked (example_world\<lparr>activeTrade := None\<rparr>))
     = Some example_trade"
  using snapshot_follows_trade_only_when_set
    [of example_world "example_hooks\<lparr>trade := Some (Trade EXACT_INPUT (usdc 100) (usdc 7))\<rparr>"
        "\<lparr>btn_disabled = None, btn_action = None\<rparr>" ButtonClicked]
    snapshot_follows_trade_only_when_set
    [of "example_world\<lparr>activeTrade := None\<rparr>" example_hooks
        "\<lparr>btn_disabled = None, btn_action = None\<rparr>" ButtonClicked]
  by (simp add: example_hooks_def example_world_def onClick_ActionButton_def setActiveTrade_def)

text \<open>
  C8, as stated: the dialog is rendered exactly when \<open>activeTrade\<close> is set. It fails on
  a render that throws: with the snapshot set, an unblocked button, \<open>notApproved\<close> and no
  currency, the memo throws at \<open>invariant(currency)\<close> and the component renders nothing,
  the dialog included.
\<close>

theorem SwapButton_throws_with_activeTrade_set:
  "activeTrade example_world = Some example_trade \<and>
   SwapButton (example_hooks\<lparr>notApproved := True, inputCurrency := None,
                 approvalCurrencyAmount := None\<rparr>) example_world
     = Inl Invariant_failed"
  by (simp add: SwapButton_def actionProps_def blocked_def insufficientBalance_def
      lessThan_amount_def example_hooks_def example_world_def usdc_def)

text \<open>
  C8, amended: on every render that does not throw at \<open>invariant(currency)\<close> (the button
  is blocked, or \<open>notApproved\<close> is false, or \<open>inputCurrency\<close> or the approval amount is
  present), the component renders, and the dialog is rendered exactly when \<open>activeTrade\<close>
  is set; the dialog then carries the snapshot trade and \<open>onConfirm\<close>, and its
  \<open>onClose\<close> clears \<open>activeTrade\<close> on any world.
\<close>

theorem dialog_rendered_iff_activeTrade:
  assumes "blocked r \<or> \<not> notApproved r \<or> inputCurrency r \<noteq> None \<or>
           approvalCurrencyAmount r \<noteq> None"
  shows "\<exists>v. SwapButton r w = Inr v \<and>
           (dialog v \<noteq> None \<longleftrightarrow> activeTrade w \<noteq> None) \<and>
           (\<forall>d. dialog v = Some d \<longrightarrow>
              activeTrade w = Some (sd_trade (dlg_children d)) \<and>
              sd_onConfirm (dlg_children d) = onConfirm r \<and>
              (\<forall>w'. activeTrade (dlg_onClose d w') = None))"
proof -
  from assms obtain props where memo: "actionProps r = Inr props"
    using actionProps_returns by blast
  show ?thesis
  proof (cases "activeTrade w")
    case None
    with memo show ?thesis by (simp add: SwapButton_def render_def)
  next
    case (Some t)
    with memo show ?thesis
      by (auto simp add: SwapButton_def render_def onClose_Dialog_def setActiveTrade_fields)
  qed
qed

theorem dialog_rendered_iff_activeTrade_witness:
  "\<not> notApproved example_hooks \<and>
   activeTrade example_world = Some example_trade \<and>
   (\<exists>v d. SwapButton example_hooks example_world = Inr v \<and> dialog v = Some d \<and>
      sd_trade (dlg_children d) = example_trade \<and>
      activeTrade (dlg_onClose d example_world) = None) \<and>
   (\<exists>v. SwapButton example_hooks (example_world\<lparr>activeTrade := None\<rparr>) = Inr v \<and>
      dialog v = None)"
proof -
  have memo: "\<not> notApproved example_hooks"
    by (simp add: example_hooks_def)
  then have hyp: "blocked example_hooks \<or> \<not> notApproved example_hooks \<or>
      inputCurrency example_hooks \<noteq> None \<or> approvalCurrencyAmount example_hooks \<noteq> None"
    by simp
  have open_: "activeTrade example_world = Some example_trade"
    by (simp add: example_world_def)
  have closed: "activeTrade (example_world\<lparr>activeTrade := None\<rparr>) = None"
    by simp
  from dialog_rendered_iff_activeTrade [OF hyp, of example_world] open_
  have "\<exists>v d. SwapButton example_hooks example_world = Inr v \<and> dialog v = Some d \<and>
      sd_trade (dlg_children d) = example_trade \<and>
      activeTrade (dlg_onClose d example_world) = None"
    by fastforce
  moreover from dialog_rendered_iff_activeTrade
    [OF hyp, of "example_world\<lparr>activeTrade := None\<rparr>"] closed
  have "\<exists>v. SwapButton example_hooks (example_world\<lparr>activeTrade := None\<rparr>) = Inr v \<and>
      dialog v = None"
    by auto
  ultimately show ?thesis using memo open_ by blast
qed

end
